theory Spec2Isabelle
  imports Complex_Main "HOL-Library.Word" "HOL-Library.Log_Nat"
begin

unbundle bit_operations_syntax

section \<open>The audio backend boundary\<close>

text \<open>
  The capture class talks to the cubeb audio backend and to the dr\_wav encoder. Both are
  external: every answer they give is an argument of the operation that asks for it, and
  every call made to them is recorded, in order, in the list of effects the operation
  returns. Opaque pointers are natural numbers; a pointer that may be null is an option,
  with \<open>None\<close> for \<open>nullptr\<close>.

  C \<open>int\<close> and \<open>long\<close> values are HOL integers, with the conversion to a 32-bit
  \<open>int\<close> written out as \<open>to_int32\<close>; \<open>long\<close> is taken to be 64 bits wide. The
  \<open>uint32_t\<close> fields of the backend's parameter struct are 32-bit words.
\<close>

type_synonym cubeb = nat
type_synonym cubeb_stream = nat
type_synonym cubeb_devid = "nat option"
type_synonym float32 = "32 word"

definition CUBEB_OK :: int where
  "CUBEB_OK = 0"

definition to_int32 :: "int \<Rightarrow> int" where
  "to_int32 x = signed_take_bit 31 x"

definition in_long :: "int \<Rightarrow> bool" where
  "in_long x \<longleftrightarrow> - (2 ^ 63) \<le> x \<and> x < 2 ^ 63"

record cubeb_device_info =
  devid :: cubeb_devid
  friendly_name :: "string option"
  device_id :: "string option"

datatype cubeb_sample_format =
  CUBEB_SAMPLE_S16LE | CUBEB_SAMPLE_S16BE | CUBEB_SAMPLE_FLOAT32LE | CUBEB_SAMPLE_FLOAT32BE

datatype cubeb_channel_layout = CUBEB_LAYOUT_UNDEFINED | CUBEB_LAYOUT_MASK "32 word"

datatype cubeb_stream_prefs = CUBEB_STREAM_PREF_NONE | CUBEB_STREAM_PREF_FLAGS "32 word"

record cubeb_stream_params =
  format :: cubeb_sample_format
  rate :: "32 word"
  channels :: "32 word"
  layout :: cubeb_channel_layout
  prefs :: cubeb_stream_prefs

datatype cubeb_state =
  CUBEB_STATE_STARTED | CUBEB_STATE_STOPPED | CUBEB_STATE_DRAINED | CUBEB_STATE_ERROR
  | CUBEB_STATE_OTHER

datatype drwav_container = drwav_container_riff | drwav_container_other

datatype drwav_format_tag = DR_WAVE_FORMAT_PCM | DR_WAVE_FORMAT_OTHER

record drwav_data_format =
  wav_container :: drwav_container
  wav_format :: drwav_format_tag
  wav_channels :: "32 word"
  wav_sampleRate :: "32 word"
  wav_bitsPerSample :: "32 word"

text \<open>The calls that leave the class, with the arguments they are made with.\<close>

datatype effect =
  Cubeb_init
  | Cubeb_enumerate_devices "cubeb option"
  | Cubeb_device_collection_destroy "cubeb option"
  | Cubeb_destroy "cubeb option"
  | Cubeb_stream_init "cubeb option" cubeb_devid cubeb_stream_params "32 word"
  | Cubeb_stream_get_latency cubeb_stream
  | Cubeb_stream_start cubeb_stream
  | Cubeb_stream_stop cubeb_stream
  | Cubeb_stream_destroy cubeb_stream
  | User_callback nat "float32 list" int int int
  | Drwav_init_file_write string drwav_data_format
  | Drwav_write_pcm_frames nat "16 word list"
  | Drwav_uninit

fun is_stream_init :: "effect \<Rightarrow> bool" where
  "is_stream_init (Cubeb_stream_init _ _ _ _) = True"
| "is_stream_init _ = False"

text \<open>
  What the backend answers. \<open>cubeb_init\<close> gives its return code and the context it
  stored; \<open>cubeb_enumerate_devices\<close> its return code and the device collection;
  \<open>cubeb_stream_init\<close> its return code, the stream it stored through the out
  pointer, and the parameter struct as it stands when the call returns (the struct is
  passed by address). A call that fails stores no context and no stream.
\<close>

type_synonym cubeb_init_response = "int \<times> cubeb"
type_synonym enumerate_response = "int \<times> cubeb_device_info list"

record stream_init_response =
  si_r :: int
  si_stream :: cubeb_stream
  si_params :: cubeb_stream_params

record start_env =
  se_enumerate :: enumerate_response
  se_stream_init :: stream_init_response
  se_stream_start :: int

text \<open>
  Two ways an operation can fail to return: undefined behaviour of the C++ (a read out of
  range, a string built from a null pointer, a division by zero, a conversion out of
  range), and the \<open>std::length_error\<close> that \<open>reserve\<close> throws.
\<close>

datatype fault = UndefinedBehaviour | LengthError

section \<open>The capture handle\<close>

text \<open>
  The fields of \<open>class AudioCapture\<close>. The user callback is identified by a number,
  \<open>None\<close> being the empty \<open>std::function\<close>. The thread handle, the mutex and the
  condition variable hold no data of their own and are left out: the operations are
  modelled one call at a time.
\<close>

record AudioCapture =
  context' :: "cubeb option"
  stream :: "cubeb_stream option"
  inputDeviceId :: cubeb_devid
  callback :: "nat option"
  capturing :: bool
  shouldStop :: bool
  sampleRate :: int
  channelCount :: int
  currentDeviceName :: string
  inputDeviceIndex :: int
  initialized :: bool
  recordedAudio :: "8 word list"
  outputFile :: string

definition initializeCubeb ::
  "AudioCapture \<Rightarrow> cubeb_init_response \<Rightarrow> enumerate_response \<Rightarrow> bool \<times> AudioCapture \<times> effect list"
where
  "initializeCubeb s ini enum =
    (if fst ini \<noteq> CUBEB_OK then (False, s, [Cubeb_init])
     else
       let s1 = s\<lparr>context' := Some (snd ini)\<rparr> in
       if fst enum \<noteq> CUBEB_OK then
         (False, s1\<lparr>context' := None\<rparr>,
          [Cubeb_init, Cubeb_enumerate_devices (context' s1), Cubeb_destroy (context' s1)])
       else
         (case snd enum of
            [] \<Rightarrow>
              (False, s1\<lparr>context' := None\<rparr>,
               [Cubeb_init, Cubeb_enumerate_devices (context' s1),
                Cubeb_device_collection_destroy (context' s1), Cubeb_destroy (context' s1)])
          | d # _ \<Rightarrow>
              (True,
               s1\<lparr>inputDeviceId := devid d,
                  currentDeviceName :=
                    (case friendly_name d of Some n \<Rightarrow> n | None \<Rightarrow> ''Unknown Device''),
                  inputDeviceIndex := 0,
                  initialized := True\<rparr>,
               [Cubeb_init, Cubeb_enumerate_devices (context' s1),
                Cubeb_device_collection_destroy (context' s1)])))"

definition AudioCapture_ctor ::
  "nat option \<Rightarrow> cubeb_init_response \<Rightarrow> enumerate_response \<Rightarrow> AudioCapture \<times> effect list"
where
  "AudioCapture_ctor cb ini enum =
    (let s0 = \<lparr>context' = None, stream = None, inputDeviceId = None, callback = cb,
               capturing = False, shouldStop = False, sampleRate = 0, channelCount = 0,
               currentDeviceName = [], inputDeviceIndex = - 1, initialized = False,
               recordedAudio = [], outputFile = ''captured-audio.wav''\<rparr>
     in snd (initializeCubeb s0 ini enum))"

definition cleanup :: "AudioCapture \<Rightarrow> AudioCapture \<times> effect list" where
  "cleanup s =
    (let es1 = (case stream s of
                  Some st \<Rightarrow> [Cubeb_stream_stop st, Cubeb_stream_destroy st]
                | None \<Rightarrow> []);
         es2 = (case context' s of Some c \<Rightarrow> [Cubeb_destroy (Some c)] | None \<Rightarrow> [])
     in (s\<lparr>stream := None, context' := None, inputDeviceId := None, initialized := False\<rparr>,
         es1 @ es2))"

definition setInputDevice ::
  "AudioCapture \<Rightarrow> int \<Rightarrow> enumerate_response \<Rightarrow> fault + (bool \<times> AudioCapture \<times> effect list)"
where
  "setInputDevice s deviceIndex enum =
    (if \<not> initialized s \<or> context' s = None then Inr (False, s, [])
     else if capturing s then Inr (False, s, [])
     else if fst enum \<noteq> CUBEB_OK then Inr (False, s, [Cubeb_enumerate_devices (context' s)])
     else if deviceIndex < 0 \<or> deviceIndex \<ge> to_int32 (int (length (snd enum))) then
       Inr (False, s,
            [Cubeb_enumerate_devices (context' s), Cubeb_device_collection_destroy (context' s)])
     else
       let d = snd enum ! nat deviceIndex in
       (case (case friendly_name d of Some n \<Rightarrow> Some n | None \<Rightarrow> device_id d) of
          None \<Rightarrow> Inl UndefinedBehaviour
        | Some name \<Rightarrow>
            Inr (True,
                 s\<lparr>inputDeviceId := devid d, inputDeviceIndex := deviceIndex,
                   currentDeviceName := name\<rparr>,
                 [Cubeb_enumerate_devices (context' s),
                  Cubeb_device_collection_destroy (context' s)])))"

definition requested_params :: cubeb_stream_params where
  "requested_params =
    \<lparr>format = CUBEB_SAMPLE_FLOAT32LE, rate = 48000, channels = 2,
     layout = CUBEB_LAYOUT_UNDEFINED, prefs = CUBEB_STREAM_PREF_NONE\<rparr>"

text \<open>
  The part of \<open>startCapture\<close> from the null check of the device on: stream creation, the
  parameters read from the struct, the clearing of the recording, the start of the stream.
\<close>

definition open_stream ::
  "AudioCapture \<Rightarrow> effect list \<Rightarrow> stream_init_response \<Rightarrow> int \<Rightarrow> bool \<times> AudioCapture \<times> effect list"
where
  "open_stream s es si start_r =
    (if inputDeviceId s = None then (False, s, es)
     else
       let es1 = es @ [Cubeb_stream_init (context' s) (inputDeviceId s) requested_params 4096] in
       if si_r si \<noteq> CUBEB_OK then (False, s, es1)
       else
         let input_params = si_params si;
             st = si_stream si;
             s1 = s\<lparr>stream := Some st\<rparr>;
             s2 = s1\<lparr>sampleRate := sint (rate input_params),
                     channelCount := sint (channels input_params)\<rparr>;
             s3 = s2\<lparr>recordedAudio := []\<rparr>;
             es2 = es1 @ [Cubeb_stream_get_latency st, Cubeb_stream_start st]
         in
           if start_r \<noteq> CUBEB_OK then
             (False, s3\<lparr>stream := None\<rparr>, es2 @ [Cubeb_stream_destroy st])
           else (True, s3\<lparr>shouldStop := False, capturing := True\<rparr>, es2))"

definition startCapture ::
  "AudioCapture \<Rightarrow> int \<Rightarrow> start_env \<Rightarrow> fault + (bool \<times> AudioCapture \<times> effect list)"
where
  "startCapture s deviceIndex env =
    (if \<not> initialized s then Inr (False, s, [])
     else if capturing s then Inr (False, s, [])
     else if deviceIndex \<ge> 0 then
       (case setInputDevice s deviceIndex (se_enumerate env) of
          Inl f \<Rightarrow> Inl f
        | Inr (ok, s1, es) \<Rightarrow>
            if \<not> ok then Inr (False, s1, es)
            else Inr (open_stream s1 es (se_stream_init env) (se_stream_start env)))
     else Inr (open_stream s [] (se_stream_init env) (se_stream_start env)))"

definition stopCapture :: "AudioCapture \<Rightarrow> int \<Rightarrow> bool \<times> AudioCapture \<times> effect list" where
  "stopCapture s stop_r =
    (if \<not> capturing s then (True, s, [])
     else
       let s1 = s\<lparr>shouldStop := True\<rparr>;
           es = (case stream s1 of Some st \<Rightarrow> [Cubeb_stream_stop st] | None \<Rightarrow> [])
       in (True, s1\<lparr>capturing := False\<rparr>, es))"

text \<open>The destructor stops the capture and releases the backend.\<close>

definition AudioCapture_dtor :: "AudioCapture \<Rightarrow> int \<Rightarrow> AudioCapture \<times> effect list" where
  "AudioCapture_dtor s stop_r =
    (case stopCapture s stop_r of
       (_, s1, es1) \<Rightarrow> (case cleanup s1 of (s2, es2) \<Rightarrow> (s2, es1 @ es2)))"

definition isCapturing :: "AudioCapture \<Rightarrow> bool" where
  "isCapturing s = capturing s"

definition setCallback :: "AudioCapture \<Rightarrow> nat option \<Rightarrow> AudioCapture" where
  "setCallback s cb = s\<lparr>callback := cb\<rparr>"

definition getSampleRate :: "AudioCapture \<Rightarrow> int" where
  "getSampleRate s = sampleRate s"

definition getChannelCount :: "AudioCapture \<Rightarrow> int" where
  "getChannelCount s = channelCount s"

fun device_names :: "cubeb_device_info list \<Rightarrow> string list" where
  "device_names [] = []"
| "device_names (d # ds) =
    (case (case friendly_name d of Some n \<Rightarrow> Some n | None \<Rightarrow> device_id d) of
       Some name \<Rightarrow> name # device_names ds
     | None \<Rightarrow> device_names ds)"

definition getAvailableInputDevices ::
  "AudioCapture \<Rightarrow> enumerate_response \<Rightarrow> string list \<times> effect list"
where
  "getAvailableInputDevices s enum =
    (if \<not> initialized s \<or> context' s = None then ([], [])
     else if fst enum \<noteq> CUBEB_OK then ([], [Cubeb_enumerate_devices (context' s)])
     else (device_names (snd enum),
           [Cubeb_enumerate_devices (context' s), Cubeb_device_collection_destroy (context' s)]))"

definition getCurrentInputDevice :: "AudioCapture \<Rightarrow> string" where
  "getCurrentInputDevice s = currentDeviceName s"

definition setOutputFile :: "AudioCapture \<Rightarrow> string \<Rightarrow> AudioCapture" where
  "setOutputFile s filename = s\<lparr>outputFile := filename\<rparr>"

definition stateCallback :: "AudioCapture option \<Rightarrow> cubeb_state \<Rightarrow> AudioCapture option" where
  "stateCallback user_ptr state =
    (case user_ptr of
       None \<Rightarrow> None
     | Some capture \<Rightarrow>
         (case state of
            CUBEB_STATE_STOPPED \<Rightarrow> Some (capture\<lparr>capturing := False\<rparr>)
          | CUBEB_STATE_ERROR \<Rightarrow> Some (capture\<lparr>capturing := False\<rparr>)
          | _ \<Rightarrow> Some capture))"

section \<open>The capture sink\<close>

text \<open>
  A 32-bit float sample is kept as its bit pattern. The recording buffer holds the bytes of
  the samples as they lie in memory, least significant byte first (the stream is opened as
  \<open>CUBEB_SAMPLE_FLOAT32LE\<close>).
\<close>

definition bytes_of_float32 :: "float32 \<Rightarrow> 8 word list" where
  "bytes_of_float32 w =
    [ucast w, ucast (drop_bit 8 w), ucast (drop_bit 16 w), ucast (drop_bit 24 w)]"

definition bytes_of_samples :: "float32 list \<Rightarrow> 8 word list" where
  "bytes_of_samples xs = concat (map bytes_of_float32 xs)"

definition onAudioData :: "AudioCapture \<Rightarrow> float32 list \<Rightarrow> int \<Rightarrow> effect list" where
  "onAudioData s audioData frameCount =
    (case callback s of
       Some cb \<Rightarrow> [User_callback cb audioData frameCount (sampleRate s) (channelCount s)]
     | None \<Rightarrow> [])"

text \<open>
  \<open>dataCallback\<close> is static: the handle comes in as \<open>user_ptr\<close>, the delivered buffer as
  \<open>input_buffer\<close>, both possibly null. The buffer is the list of the samples the backend
  put behind the pointer; reading more samples than it holds, or a negative number of
  them, is undefined.
\<close>

definition dataCallback ::
  "AudioCapture option \<Rightarrow> float32 list option \<Rightarrow> int
    \<Rightarrow> fault + (int \<times> AudioCapture option \<times> effect list)"
where
  "dataCallback user_ptr input_buffer nframes =
    (case user_ptr of
       None \<Rightarrow> Inr (0, user_ptr, [])
     | Some capture \<Rightarrow>
         (case input_buffer of
            None \<Rightarrow> Inr (0, user_ptr, [])
          | Some input_samples \<Rightarrow>
              if \<not> in_long (nframes * channelCount capture) then Inl UndefinedBehaviour
              else
                let sample_count = to_int32 (nframes * channelCount capture) in
                if sample_count < 0 \<or> int (length input_samples) < sample_count
                then Inl UndefinedBehaviour
                else
                  let audio_data = take (nat sample_count) input_samples;
                      capture1 = capture\<lparr>recordedAudio :=
                                   recordedAudio capture @ bytes_of_samples audio_data\<rparr>
                  in Inr (nframes, Some capture1,
                          onAudioData capture1 audio_data (to_int32 nframes))))"

text \<open>A run of deliveries to one handle, each of \<open>nframes\<close> frames.\<close>

fun deliver ::
  "AudioCapture \<Rightarrow> float32 list list \<Rightarrow> int \<Rightarrow> fault + (int list \<times> AudioCapture \<times> effect list)"
where
  "deliver s [] nframes = Inr ([], s, [])"
| "deliver s (b # bs) nframes =
    (case dataCallback (Some s) (Some b) nframes of
       Inl f \<Rightarrow> Inl f
     | Inr (r, None, es) \<Rightarrow> Inl UndefinedBehaviour
     | Inr (r, Some s1, es) \<Rightarrow>
         (case deliver s1 bs nframes of
            Inl f \<Rightarrow> Inl f
          | Inr (rs, s2, es2) \<Rightarrow> Inr (r # rs, s2, es @ es2)))"

section \<open>Sequences of control calls\<close>

datatype call = StartCapture int start_env | StopCapture int

fun is_stop :: "call \<Rightarrow> bool" where
  "is_stop (StopCapture _) = True"
| "is_stop (StartCapture _ _) = False"

fun do_call :: "AudioCapture \<Rightarrow> call \<Rightarrow> fault + (bool \<times> AudioCapture \<times> effect list)" where
  "do_call s (StartCapture deviceIndex env) = startCapture s deviceIndex env"
| "do_call s (StopCapture stop_r) = Inr (stopCapture s stop_r)"

text \<open>The calls are made in order on one handle; the results are collected in order.\<close>

fun run_calls :: "AudioCapture \<Rightarrow> call list \<Rightarrow> fault + (bool list \<times> AudioCapture)" where
  "run_calls s [] = Inr ([], s)"
| "run_calls s (c # cs) =
    (case do_call s c of
       Inl f \<Rightarrow> Inl f
     | Inr (r, s1, es) \<Rightarrow>
         (case run_calls s1 cs of
            Inl f \<Rightarrow> Inl f
          | Inr (rs, s2) \<Rightarrow> Inr (r # rs, s2)))"

text \<open>
  Whether a call, made on the handle \<open>s\<close>, has its stream created by the backend: a
  start that reaches \<open>cubeb_stream_init\<close> and is answered with \<open>CUBEB_OK\<close>. A run
  of calls in which no call has.
\<close>

definition stream_created :: "AudioCapture \<Rightarrow> call \<Rightarrow> bool" where
  "stream_created s c =
    (case c of
       StopCapture _ \<Rightarrow> False
     | StartCapture deviceIndex env \<Rightarrow>
         (case startCapture s deviceIndex env of
            Inl _ \<Rightarrow> False
          | Inr (ok, s1, es) \<Rightarrow>
              list_ex is_stream_init es \<and> si_r (se_stream_init env) = CUBEB_OK))"

fun no_stream_created :: "AudioCapture \<Rightarrow> call list \<Rightarrow> bool" where
  "no_stream_created s [] = True"
| "no_stream_created s (c # cs) =
    (\<not> stream_created s c \<and>
     (case do_call s c of
        Inl _ \<Rightarrow> True
      | Inr (r, s1, es) \<Rightarrow> no_stream_created s1 cs))"

section \<open>Single-precision arithmetic\<close>

text \<open>
  The value of a binary32 bit pattern: not a number, an infinity with its sign (\<open>True\<close>
  for negative), or a finite number. The two zeros have the same value; nothing below
  tells them apart. Arithmetic rounds to nearest, ties to even, at 24 bits of precision and
  with the exponent range of binary32.
\<close>

datatype f32 = NaN | Infinity bool | Finite real

definition pow2 :: "int \<Rightarrow> real" where
  "pow2 k = (if 0 \<le> k then 2 ^ nat k else 1 / 2 ^ nat (- k))"

definition f32_of_bits :: "float32 \<Rightarrow> f32" where
  "f32_of_bits w =
    (let neg = bit w 31;
         e = unat (take_bit 8 (drop_bit 23 w));
         m = unat (take_bit 23 w);
         sg = (if neg then - 1 else 1)
     in if e = 255 then (if m = 0 then Infinity neg else NaN)
        else if e = 0 then Finite (sg * of_nat m * pow2 (- 149))
        else Finite (sg * of_nat (2 ^ 23 + m) * pow2 (int e - 150)))"

text \<open>The comparison \<open><\<close> of the language: false whenever an operand is not a number.\<close>

fun f32_less :: "f32 \<Rightarrow> f32 \<Rightarrow> bool" where
  "f32_less NaN _ = False"
| "f32_less _ NaN = False"
| "f32_less (Infinity a) (Infinity b) = (a \<and> \<not> b)"
| "f32_less (Infinity a) (Finite y) = a"
| "f32_less (Finite x) (Infinity b) = (\<not> b)"
| "f32_less (Finite x) (Finite y) = (x < y)"

text \<open>\<open>std::min(a, b)\<close> is \<open>(b < a) ? b : a\<close> and \<open>std::max(a, b)\<close> is \<open>(a < b) ? b : a\<close>.\<close>

definition std_min :: "f32 \<Rightarrow> f32 \<Rightarrow> f32" where
  "std_min a b = (if f32_less b a then b else a)"

definition std_max :: "f32 \<Rightarrow> f32 \<Rightarrow> f32" where
  "std_max a b = (if f32_less a b then b else a)"

definition round_half_even :: "real \<Rightarrow> int" where
  "round_half_even v =
    (let f = \<lfloor>v\<rfloor>; d = v - of_int f
     in if d < 1 / 2 then f else if 1 / 2 < d then f + 1 else if even f then f else f + 1)"

text \<open>The binary exponent of a positive number: the \<open>k\<close> with \<open>2 ^ k \<le> x < 2 ^ (k + 1)\<close>.\<close>

definition ilog2 :: "real \<Rightarrow> int" where
  "ilog2 x = (if 1 \<le> x then bitlen \<lfloor>x\<rfloor> - 1 else - bitlen (\<lceil>1 / x\<rceil> - 1))"

definition f32_nearest :: "real \<Rightarrow> real" where
  "f32_nearest x =
    (if x = 0 then 0
     else
       let e = max (ilog2 \<bar>x\<bar>) (- 126);
           q = pow2 (e - 23)
       in of_int (round_half_even (x / q)) * q)"

definition f32_round :: "real \<Rightarrow> f32" where
  "f32_round x =
    (let r = f32_nearest x in if 2 ^ 128 \<le> \<bar>r\<bar> then Infinity (x < 0) else Finite r)"

fun f32_mul :: "f32 \<Rightarrow> f32 \<Rightarrow> f32" where
  "f32_mul NaN _ = NaN"
| "f32_mul _ NaN = NaN"
| "f32_mul (Infinity a) (Infinity b) = Infinity (a \<noteq> b)"
| "f32_mul (Infinity a) (Finite y) = (if y = 0 then NaN else Infinity (a \<noteq> (y < 0)))"
| "f32_mul (Finite x) (Infinity b) = (if x = 0 then NaN else Infinity ((x < 0) \<noteq> b))"
| "f32_mul (Finite x) (Finite y) = f32_round (x * y)"

definition truncate_toward_zero :: "real \<Rightarrow> int" where
  "truncate_toward_zero v = (if 0 \<le> v then \<lfloor>v\<rfloor> else \<lceil>v\<rceil>)"

text \<open>
  \<open>static_cast<int16_t>\<close> of a float drops the fraction; the behaviour is undefined when
  what is left does not fit the target type.
\<close>

definition f32_to_int16 :: "f32 \<Rightarrow> fault + 16 word" where
  "f32_to_int16 x =
    (case x of
       Finite v \<Rightarrow>
         if - 32768 \<le> truncate_toward_zero v \<and> truncate_toward_zero v \<le> 32767
         then Inr (word_of_int (truncate_toward_zero v))
         else Inl UndefinedBehaviour
     | _ \<Rightarrow> Inl UndefinedBehaviour)"

section \<open>The WAV exporter\<close>

fun find_last_of :: "string \<Rightarrow> char \<Rightarrow> nat option" where
  "find_last_of [] c = None"
| "find_last_of (x # xs) c =
    (case find_last_of xs c of
       Some i \<Rightarrow> Some (Suc i)
     | None \<Rightarrow> if x = c then Some 0 else None)"

text \<open>
  The file name: \<open>find_last_of\<close> gives \<open>npos\<close> when there is no dot, \<open>npos + 1\<close> wraps
  to 0, and \<open>substr(0, npos)\<close> is the whole string.
\<close>

definition wav_filename :: "string \<Rightarrow> string" where
  "wav_filename wavFile =
    (let dot = find_last_of wavFile CHR ''.'';
         ext = drop (case dot of Some i \<Rightarrow> i + 1 | None \<Rightarrow> 0) wavFile
     in if ext \<noteq> ''wav''
        then (case dot of Some i \<Rightarrow> take i wavFile | None \<Rightarrow> wavFile) @ ''.wav''
        else wavFile)"

definition float32_of_bytes :: "8 word \<Rightarrow> 8 word \<Rightarrow> 8 word \<Rightarrow> 8 word \<Rightarrow> float32" where
  "float32_of_bytes b0 b1 b2 b3 =
    ucast b0 OR push_bit 8 (ucast b1) OR push_bit 16 (ucast b2) OR push_bit 24 (ucast b3)"

text \<open>\<open>floatData[i]\<close>, the recording read as an array of floats.\<close>

definition floatData :: "8 word list \<Rightarrow> int \<Rightarrow> float32 option" where
  "floatData bytes i =
    (if 0 \<le> i \<and> 4 * nat i + 4 \<le> length bytes
     then Some (float32_of_bytes (bytes ! (4 * nat i)) (bytes ! (4 * nat i + 1))
                  (bytes ! (4 * nat i + 2)) (bytes ! (4 * nat i + 3)))
     else None)"

definition pcm_of_float :: "f32 \<Rightarrow> fault + 16 word" where
  "pcm_of_float x =
    (let sample = std_max (Finite (- 1)) (std_min (Finite 1) x)
     in f32_to_int16 (f32_mul sample (Finite 32767)))"

function convert_samples ::
  "8 word list \<Rightarrow> int \<Rightarrow> int \<Rightarrow> 16 word list \<Rightarrow> fault + 16 word list"
where
  "convert_samples bytes i numSamples pcmData =
    (if i < numSamples then
       (case floatData bytes i of
          None \<Rightarrow> Inl UndefinedBehaviour
        | Some x \<Rightarrow>
            (case pcm_of_float (f32_of_bits x) of
               Inl f \<Rightarrow> Inl f
             | Inr pcmSample \<Rightarrow> convert_samples bytes (i + 1) numSamples (pcmData @ [pcmSample])))
     else Inr pcmData)"
  by pat_completeness auto
termination
  by (relation "measure (\<lambda>(bytes, i, numSamples, pcmData). nat (numSamples - i))") auto

declare convert_samples.simps [simp del]

text \<open>The conversion of an \<open>int\<close> to the 64-bit \<open>size_t\<close>: a negative value wraps.\<close>

definition to_size_t :: "int \<Rightarrow> nat" where
  "to_size_t x = (if x < 0 then nat (2 ^ 64 + x) else nat x)"

text \<open>
  \<open>saveRecordedAudio\<close>, with the encoder's two answers as arguments: whether
  \<open>drwav_init_file_write\<close> opened the file, and the frame count
  \<open>drwav_write_pcm_frames\<close> returns.
\<close>

definition saveRecordedAudio ::
  "AudioCapture \<Rightarrow> bool \<Rightarrow> nat \<Rightarrow> fault + (bool \<times> effect list)"
where
  "saveRecordedAudio s init_ok framesWritten =
    (if recordedAudio s = [] then Inr (False, [])
     else
       let wavFile = wav_filename (outputFile s);
           numChannels = channelCount s;
           numSamples = to_int32 (int (length (recordedAudio s) div 4))
       in
         if numSamples < 0 then Inl LengthError
         else
           (case convert_samples (recordedAudio s) 0 numSamples [] of
              Inl f \<Rightarrow> Inl f
            | Inr pcmData \<Rightarrow>
                let fmt = \<lparr>wav_container = drwav_container_riff,
                           wav_format = DR_WAVE_FORMAT_PCM,
                           wav_channels = word_of_int numChannels,
                           wav_sampleRate = word_of_int (sampleRate s),
                           wav_bitsPerSample = 16\<rparr>;
                    es1 = [Drwav_init_file_write wavFile fmt]
                in
                  if \<not> init_ok then Inr (False, es1)
                  else if numChannels = 0 then Inl UndefinedBehaviour
                  else
                    let es2 = es1 @
                          [Drwav_write_pcm_frames (length pcmData div to_size_t numChannels)
                             pcmData,
                           Drwav_uninit]
                    in if framesWritten = 0 then Inr (False, es2) else Inr (True, es2)))"

section \<open>The conversion in the words of the specification\<close>

text \<open>
  The stored samples are the successive groups of four bytes of the recording. Each is
  clamped to the interval from \<open>-1\<close> to \<open>1\<close>, scaled by 32767 in single precision, and
  cut off towards zero. A sample that is not a number has no place in the order; the
  clamp takes it to the upper bound.
\<close>

fun stored_samples :: "8 word list \<Rightarrow> float32 list" where
  "stored_samples (b0 # b1 # b2 # b3 # bs) = float32_of_bytes b0 b1 b2 b3 # stored_samples bs"
| "stored_samples _ = []"

definition clamp_unit :: "f32 \<Rightarrow> real" where
  "clamp_unit x =
    (case x of
       NaN \<Rightarrow> 1
     | Infinity neg \<Rightarrow> if neg then - 1 else 1
     | Finite v \<Rightarrow> if v < - 1 then - 1 else if 1 < v then 1 else v)"

definition scale_32767 :: "real \<Rightarrow> real" where
  "scale_32767 c = f32_nearest (c * 32767)"

definition spec_pcm_sample :: "float32 \<Rightarrow> int" where
  "spec_pcm_sample w = truncate_toward_zero (scale_32767 (clamp_unit (f32_of_bits w)))"

section \<open>Example handles and backend answers\<close>

text \<open>
  A backend with two input devices, a handle constructed on it, the answers of a backend
  that grants 44100 Hz mono, of one that rejects the creation of the stream, and of one
  that rejects its start; the handle while it captures, after a session that recorded one
  sample, and after a start that failed (on that handle, and on the fresh one); a stereo recording of five samples (2, -0.5, 0.5,
  a NaN and 0.25).
\<close>

definition built_in_mic :: cubeb_device_info where
  "built_in_mic =
    \<lparr>devid = Some 11, friendly_name = Some ''Built-in Mic'', device_id = Some ''mic0''\<rparr>"

definition usb_mic :: cubeb_device_info where
  "usb_mic = \<lparr>devid = Some 12, friendly_name = Some ''USB Mic'', device_id = Some ''usb0''\<rparr>"

definition two_devices :: enumerate_response where
  "two_devices = (0, [built_in_mic, usb_mic])"

definition ready_handle :: AudioCapture where
  "ready_handle = fst (AudioCapture_ctor (Some 1) (0, 3) two_devices)"

definition granted_params :: cubeb_stream_params where
  "granted_params = requested_params\<lparr>rate := 44100, channels := 1\<rparr>"

definition ok_env :: start_env where
  "ok_env =
    \<lparr>se_enumerate = two_devices,
     se_stream_init = \<lparr>si_r = 0, si_stream = 5, si_params = granted_params\<rparr>,
     se_stream_start = 0\<rparr>"

definition create_fails_env :: start_env where
  "create_fails_env =
    \<lparr>se_enumerate = two_devices,
     se_stream_init = \<lparr>si_r = - 1, si_stream = 0, si_params = requested_params\<rparr>,
     se_stream_start = 0\<rparr>"

definition start_fails_env :: start_env where
  "start_fails_env =
    \<lparr>se_enumerate = two_devices,
     se_stream_init = \<lparr>si_r = 0, si_stream = 6, si_params = requested_params\<rparr>,
     se_stream_start = - 1\<rparr>"

definition running_handle :: AudioCapture where
  "running_handle =
    ready_handle\<lparr>stream := Some 5, sampleRate := 44100, channelCount := 1,
                  capturing := True\<rparr>"

definition recorded_handle :: AudioCapture where
  "recorded_handle =
    ready_handle\<lparr>stream := Some 5, sampleRate := 44100, channelCount := 1,
                  shouldStop := True, recordedAudio := [0, 0, 0, 63]\<rparr>"

definition failed_start_handle :: AudioCapture where
  "failed_start_handle =
    recorded_handle\<lparr>stream := None, sampleRate := 48000, channelCount := 2,
                     recordedAudio := []\<rparr>"

definition stereo_recording :: AudioCapture where
  "stereo_recording =
    ready_handle\<lparr>stream := Some 6, sampleRate := 48000, channelCount := 2,
                  shouldStop := True,
                  recordedAudio :=
                    bytes_of_samples
                      [0x40000000, 0xBF000000, 0x3F000000, 0x7FC00000, 0x3E800000]\<rparr>"

definition rejected_start_handle :: AudioCapture where
  "rejected_start_handle = ready_handle\<lparr>sampleRate := 48000, channelCount := 2\<rparr>"

lemmas example_defs =
  built_in_mic_def usb_mic_def two_devices_def ready_handle_def granted_params_def ok_env_def
  create_fails_env_def start_fails_env_def running_handle_def recorded_handle_def
  failed_start_handle_def
  requested_params_def AudioCapture_ctor_def initializeCubeb_def CUBEB_OK_def

lemmas control_defs =
  startCapture_def open_stream_def setInputDevice_def stopCapture_def to_int32_def Let_def

section \<open>Properties\<close>

subsection \<open>The lifecycle\<close>

lemma open_stream_True:
  "open_stream s es si r = (True, s', es') \<Longrightarrow> capturing s'"
  by (auto simp: open_stream_def Let_def split: if_splits)

lemma startCapture_True:
  "startCapture s i env = Inr (True, s', es') \<Longrightarrow> capturing s'"
  by (auto simp: startCapture_def split: if_splits sum.splits prod.splits
      dest: open_stream_True)

lemma stopCapture_eq:
  "stopCapture s r = (ok, s', es) \<Longrightarrow> ok \<and> \<not> capturing s'"
  by (auto simp: stopCapture_def Let_def split: if_splits)

lemma run_calls_snoc:
  "run_calls s (cs @ [c]) =
    (case run_calls s cs of
       Inl f \<Rightarrow> Inl f
     | Inr (rs, s1) \<Rightarrow>
         (case do_call s1 c of Inl f \<Rightarrow> Inl f | Inr (r, s2, es) \<Rightarrow> Inr (rs @ [r], s2)))"
  by (induction cs arbitrary: s) (auto split: sum.splits prod.splits)

text \<open>
  C1. Whatever calls to \<open>startCapture\<close> and \<open>stopCapture\<close> came before on the handle:
  after a \<open>stopCapture\<close> call \<open>isCapturing\<close> is false, and after a \<open>startCapture\<close> call
  that returned true it is true.
\<close>

theorem start_stop_isCapturing:
  assumes "run_calls s (cs @ [c]) = Inr (rs, s')"
  shows "(is_stop c \<longrightarrow> \<not> isCapturing s') \<and> (\<not> is_stop c \<and> last rs \<longrightarrow> isCapturing s')"
proof (cases c)
  case (StartCapture i env)
  with assms show ?thesis
    by (auto simp: run_calls_snoc isCapturing_def split: sum.splits prod.splits
        dest: startCapture_True)
next
  case (StopCapture r)
  with assms show ?thesis
    by (auto simp: run_calls_snoc isCapturing_def split: sum.splits prod.splits
        dest: stopCapture_eq)
qed

theorem start_stop_isCapturing_witness:
  "(\<exists>rs s'. run_calls ready_handle
        ([StartCapture (- 1) ok_env, StartCapture 0 ok_env] @ [StopCapture (- 1)]) = Inr (rs, s')
      \<and> is_stop (StopCapture (- 1)) \<and> \<not> isCapturing s') \<and>
   (\<exists>rs s'. run_calls ready_handle
        ([StopCapture 0, StopCapture 0] @ [StartCapture 1 ok_env]) = Inr (rs, s')
      \<and> \<not> is_stop (StartCapture 1 ok_env) \<and> last rs \<and> isCapturing s')"
proof -
  obtain rs1 s1 where r1:
    "run_calls ready_handle
       ([StartCapture (- 1) ok_env, StartCapture 0 ok_env] @ [StopCapture (- 1)]) = Inr (rs1, s1)"
    by (simp add: example_defs control_defs)
  obtain rs2 s2 where r2:
    "run_calls ready_handle ([StopCapture 0, StopCapture 0] @ [StartCapture 1 ok_env])
       = Inr (rs2, s2)"
    and l2: "last rs2"
    by (simp add: example_defs control_defs)
  from start_stop_isCapturing [OF r1] start_stop_isCapturing [OF r2] l2 r1 r2
  show ?thesis by simp
qed

text \<open>
  C4. \<open>stopCapture\<close> on a handle that is not capturing returns true, changes no field and
  calls nothing. On a capturing handle it sets the stop flag, calls \<open>cubeb_stream_stop\<close>
  on the handle's stream (that one call and no other; none when the stream pointer is
  null), clears the capturing flag and returns true, whatever code \<open>stop_r\<close> that call
  returns; no other field changes.
\<close>

theorem stopCapture_any_state:
  "(\<not> isCapturing s \<longrightarrow> stopCapture s stop_r = (True, s, [])) \<and>
   (isCapturing s \<longrightarrow>
      (\<exists>s'. stopCapture s stop_r =
          (True, s', case stream s of Some st \<Rightarrow> [Cubeb_stream_stop st] | None \<Rightarrow> [])
        \<and> s' = s\<lparr>shouldStop := True, capturing := False\<rparr>
        \<and> \<not> isCapturing s' \<and> shouldStop s'))"
  by (simp add: stopCapture_def isCapturing_def Let_def)

theorem stopCapture_any_state_witness:
  "\<not> isCapturing ready_handle \<and> stopCapture ready_handle 0 = (True, ready_handle, []) \<and>
   isCapturing running_handle \<and>
   (\<exists>s'. stopCapture running_handle (- 1) = (True, s', [Cubeb_stream_stop 5])
      \<and> \<not> isCapturing s' \<and> shouldStop s')"
proof -
  have a: "\<not> isCapturing ready_handle"
    by (simp add: example_defs isCapturing_def)
  have b: "isCapturing running_handle"
    by (simp add: example_defs isCapturing_def)
  have c: "stream running_handle = Some 5"
    by (simp add: example_defs)
  from a b c stopCapture_any_state [of ready_handle 0]
    stopCapture_any_state [of running_handle "- 1"]
  show ?thesis by auto
qed

lemma run_calls_uninitialized:
  "\<not> initialized s \<Longrightarrow> \<not> capturing s \<Longrightarrow> run_calls s cs = Inr (map is_stop cs, s)"
proof (induction cs)
  case Nil
  then show ?case by simp
next
  case (Cons c cs)
  then show ?case
    by (cases c) (simp_all add: startCapture_def stopCapture_def)
qed

text \<open>
  C10. When construction fails to initialise the backend (\<open>cubeb_init\<close> fails, the
  enumeration fails, or there is no input device), every later sequence of start and stop
  calls leaves the handle as it is, and on it \<open>startCapture\<close> and \<open>setInputDevice\<close>
  return false without any call to the backend, and \<open>getAvailableInputDevices\<close> returns
  the empty list, also without any call.
\<close>

theorem failed_init_degrades:
  assumes "fst ini \<noteq> CUBEB_OK \<or> fst enum \<noteq> CUBEB_OK \<or> snd enum = []"
    and "s = fst (AudioCapture_ctor cb ini enum)"
  shows "run_calls s cs = Inr (map is_stop cs, s)
    \<and> startCapture s deviceIndex env = Inr (False, s, [])
    \<and> setInputDevice s deviceIndex enum' = Inr (False, s, [])
    \<and> getAvailableInputDevices s enum' = ([], [])"
proof -
  from assms have "\<not> initialized s" "\<not> capturing s"
    by (auto simp: AudioCapture_ctor_def initializeCubeb_def Let_def split: list.splits)
  then show ?thesis
    by (simp add: run_calls_uninitialized startCapture_def setInputDevice_def
        getAvailableInputDevices_def)
qed

theorem failed_init_degrades_witness:
  "snd (0 :: int, [] :: cubeb_device_info list) = []
   \<and> run_calls (fst (AudioCapture_ctor None (0, 3) (0, [])))
        [StartCapture 0 ok_env, StopCapture 0]
       = Inr ([False, True], fst (AudioCapture_ctor None (0, 3) (0, [])))
   \<and> startCapture (fst (AudioCapture_ctor None (0, 3) (0, []))) 1 ok_env
       = Inr (False, fst (AudioCapture_ctor None (0, 3) (0, [])), [])
   \<and> setInputDevice (fst (AudioCapture_ctor None (0, 3) (0, []))) 1 two_devices
       = Inr (False, fst (AudioCapture_ctor None (0, 3) (0, [])), [])
   \<and> getAvailableInputDevices (fst (AudioCapture_ctor None (0, 3) (0, []))) two_devices = ([], [])"
  using failed_init_degrades [of "(0, 3)" "(0, [])"
      "fst (AudioCapture_ctor None (0, 3) (0, []))" None
      "[StartCapture 0 ok_env, StopCapture 0]" 1 ok_env two_devices]
  by simp

subsection \<open>The capture sink\<close>

text \<open>
  C7. A call of the data callback with a null input buffer returns 0 frames, leaves the
  handle (and with it the recording) as it was, and makes no call at all, in particular
  none to the user callback.
\<close>

theorem dataCallback_null_buffer:
  "dataCallback user_ptr None nframes = Inr (0, user_ptr, [])"
  by (simp add: dataCallback_def split: option.splits)

subsection \<open>The exporter\<close>

text \<open>
  C8. With an empty recording \<open>saveRecordedAudio\<close> returns false and has made no call to
  the encoder: no file has been opened or written.
\<close>

theorem save_empty_recording:
  "recordedAudio s = [] \<Longrightarrow> saveRecordedAudio s init_ok framesWritten = Inr (False, [])"
  by (simp add: saveRecordedAudio_def)

theorem save_empty_recording_witness:
  "recordedAudio ready_handle = [] \<and> saveRecordedAudio ready_handle True 1 = Inr (False, [])"
proof -
  have e: "recordedAudio ready_handle = []"
    by (simp add: example_defs)
  from e save_empty_recording [OF e, of True 1] show ?thesis by simp
qed

subsection \<open>Starting a session\<close>

lemma open_stream_started:
  assumes "open_stream s es0 si r = (True, s', es)"
  shows "sampleRate s' = sint (rate (si_params si))"
    and "channelCount s' = sint (channels (si_params si))"
    and "recordedAudio s' = []"
    and "es = es0 @ [Cubeb_stream_init (context' s') (inputDeviceId s') requested_params 4096,
                    Cubeb_stream_get_latency (si_stream si), Cubeb_stream_start (si_stream si)]"
  using assms by (auto simp: open_stream_def Let_def split: if_splits)

lemma startCapture_started:
  assumes "startCapture s i env = Inr (True, s', es)"
  shows "sampleRate s' = sint (rate (si_params (se_stream_init env)))"
    and "channelCount s' = sint (channels (si_params (se_stream_init env)))"
    and "recordedAudio s' = []"
    and "\<exists>es0. es = es0 @
           [Cubeb_stream_init (context' s') (inputDeviceId s') requested_params 4096,
            Cubeb_stream_get_latency (si_stream (se_stream_init env)),
            Cubeb_stream_start (si_stream (se_stream_init env))]"
  using assms
  by (auto simp: startCapture_def split: if_splits sum.splits prod.splits
      dest: open_stream_started)

text \<open>
  C6. After a start that succeeded, the sample rate and the channel count the getters
  return are the two fields of the parameter struct as the backend left it when stream
  creation returned; the stream was requested with 48000 Hz and 2 channels, and the values
  are read after that call and before the stream is started.
\<close>

theorem negotiated_parameters_stored:
  assumes "startCapture s i env = Inr (True, s', es)"
  shows "getSampleRate s' = sint (rate (si_params (se_stream_init env)))
    \<and> getChannelCount s' = sint (channels (si_params (se_stream_init env)))
    \<and> (\<exists>es0. es = es0 @
          [Cubeb_stream_init (context' s') (inputDeviceId s') requested_params 4096,
           Cubeb_stream_get_latency (si_stream (se_stream_init env)),
           Cubeb_stream_start (si_stream (se_stream_init env))])"
  using startCapture_started [OF assms]
  by (simp add: getSampleRate_def getChannelCount_def)

theorem negotiated_parameters_stored_witness:
  "\<exists>s' es. startCapture ready_handle 1 ok_env = Inr (True, s', es)
     \<and> getSampleRate s' = 44100 \<and> getChannelCount s' = 1
     \<and> rate requested_params = 48000 \<and> channels requested_params = 2"
proof -
  obtain s' es where a: "startCapture ready_handle 1 ok_env = Inr (True, s', es)"
    by (simp add: example_defs control_defs)
  have "sint (rate (si_params (se_stream_init ok_env))) = 44100"
    "sint (channels (si_params (se_stream_init ok_env))) = 1"
    by (simp_all add: example_defs)
  with negotiated_parameters_stored [OF a] a show ?thesis
    by (auto simp: requested_params_def)
qed

lemma open_stream_failed:
  assumes "open_stream s es0 si r = (False, s', es)" and "list_ex is_stream_init es"
    and "\<not> list_ex is_stream_init es0"
  shows "si_r si \<noteq> CUBEB_OK \<longrightarrow>
      s' = s \<and> es = es0 @ [Cubeb_stream_init (context' s) (inputDeviceId s) requested_params 4096]"
    and "si_r si = CUBEB_OK \<longrightarrow>
      s' = s\<lparr>stream := None, sampleRate := sint (rate (si_params si)),
              channelCount := sint (channels (si_params si)), recordedAudio := []\<rparr>
      \<and> es = es0 @ [Cubeb_stream_init (context' s) (inputDeviceId s) requested_params 4096,
                    Cubeb_stream_get_latency (si_stream si), Cubeb_stream_start (si_stream si),
                    Cubeb_stream_destroy (si_stream si)]"
  using assms by (auto simp: open_stream_def Let_def split: if_splits)

lemma setInputDevice_effects:
  "setInputDevice s i enum = Inr (ok, s1, es) \<Longrightarrow>
     \<not> list_ex is_stream_init es \<and> capturing s1 = capturing s \<and> sampleRate s1 = sampleRate s
     \<and> channelCount s1 = channelCount s \<and> recordedAudio s1 = recordedAudio s
     \<and> stream s1 = stream s"
  by (auto simp: setInputDevice_def Let_def split: if_splits option.splits)

text \<open>
  C5, as the code has it. A start that fails at the backend (it reached stream creation
  and returned false) leaves the handle not capturing. When stream creation was rejected,
  sample rate, channel count, recording and stream handle are as before the call, and
  stream creation was the last call made. When the stream was created and its start
  rejected, the stream has been destroyed and the handle's stream pointer cleared, the
  sample rate and channel count hold what was read from the parameter struct, and the
  recording is empty.
\<close>

theorem start_failure_state:
  assumes "startCapture s i env = Inr (False, s', es)"
    and "list_ex is_stream_init es"
  shows "\<not> isCapturing s \<and> \<not> isCapturing s'
    \<and> (si_r (se_stream_init env) \<noteq> CUBEB_OK \<longrightarrow>
          sampleRate s' = sampleRate s \<and> channelCount s' = channelCount s
          \<and> recordedAudio s' = recordedAudio s \<and> stream s' = stream s
          \<and> (\<exists>es0. es = es0 @
                [Cubeb_stream_init (context' s') (inputDeviceId s') requested_params 4096]))
    \<and> (si_r (se_stream_init env) = CUBEB_OK \<longrightarrow>
          stream s' = None
          \<and> sampleRate s' = sint (rate (si_params (se_stream_init env)))
          \<and> channelCount s' = sint (channels (si_params (se_stream_init env)))
          \<and> recordedAudio s' = []
          \<and> (\<exists>es0. es = es0 @
                [Cubeb_stream_init (context' s') (inputDeviceId s') requested_params 4096,
                 Cubeb_stream_get_latency (si_stream (se_stream_init env)),
                 Cubeb_stream_start (si_stream (se_stream_init env)),
                 Cubeb_stream_destroy (si_stream (se_stream_init env))]))"
proof (cases "0 \<le> i")
  case False
  with assms have o: "open_stream s [] (se_stream_init env) (se_stream_start env) = (False, s', es)"
    and c: "\<not> capturing s"
    by (auto simp: startCapture_def split: if_splits)
  from open_stream_failed [OF o assms(2)] c show ?thesis
    by (cases "si_r (se_stream_init env) = CUBEB_OK") (auto simp: isCapturing_def)
next
  case True
  with assms obtain s1 es1 where
    d: "setInputDevice s i (se_enumerate env) = Inr (True, s1, es1)"
    and o: "open_stream s1 es1 (se_stream_init env) (se_stream_start env) = (False, s', es)"
    and c: "\<not> capturing s"
    by (auto simp: startCapture_def split: if_splits sum.splits prod.splits
        dest: setInputDevice_effects)
  from setInputDevice_effects [OF d] open_stream_failed [OF o assms(2)] c show ?thesis
    by (cases "si_r (se_stream_init env) = CUBEB_OK") (auto simp: isCapturing_def)
qed

theorem start_failure_state_witness:
  "(\<exists>s' es. startCapture recorded_handle 1 create_fails_env = Inr (False, s', es)
      \<and> list_ex is_stream_init es \<and> si_r (se_stream_init create_fails_env) \<noteq> CUBEB_OK
      \<and> \<not> isCapturing s' \<and> sampleRate s' = 44100 \<and> channelCount s' = 1
      \<and> recordedAudio s' = [0, 0, 0, 63] \<and> stream s' = Some 5)
   \<and> (\<exists>s' es. startCapture recorded_handle 1 start_fails_env = Inr (False, s', es)
      \<and> list_ex is_stream_init es \<and> si_r (se_stream_init start_fails_env) = CUBEB_OK
      \<and> \<not> isCapturing s' \<and> sampleRate s' = 48000 \<and> channelCount s' = 2
      \<and> recordedAudio s' = [] \<and> stream s' = None
      \<and> last es = Cubeb_stream_destroy 6)"
proof -
  obtain s1 es1 where a: "startCapture recorded_handle 1 create_fails_env = Inr (False, s1, es1)"
    and a': "list_ex is_stream_init es1"
    by (simp add: example_defs control_defs)
  obtain s2 es2 where b: "startCapture recorded_handle 1 start_fails_env = Inr (False, s2, es2)"
    and b': "list_ex is_stream_init es2"
    by (simp add: example_defs control_defs)
  have c: "si_r (se_stream_init create_fails_env) \<noteq> CUBEB_OK"
    "si_r (se_stream_init start_fails_env) = CUBEB_OK"
    "sampleRate recorded_handle = 44100" "channelCount recorded_handle = 1"
    "recordedAudio recorded_handle = [0, 0, 0, 63]" "stream recorded_handle = Some 5"
    "sint (rate (si_params (se_stream_init start_fails_env))) = 48000"
    "sint (channels (si_params (se_stream_init start_fails_env))) = 2"
    "si_stream (se_stream_init start_fails_env) = 6"
    by (simp_all add: example_defs)
  from start_failure_state [OF a a'] start_failure_state [OF b b'] a a' b b' c
  show ?thesis by auto
qed

text \<open>
  The handle \<open>recorded_handle\<close> is what a session leaves: a start that succeeded on
  \<open>ready_handle\<close>, one delivered frame, a stop.
\<close>

lemma running_handle_reached:
  "startCapture ready_handle (- 1) ok_env =
     Inr (True, running_handle,
          [Cubeb_stream_init (Some 3) (Some 11) requested_params 4096,
           Cubeb_stream_get_latency 5, Cubeb_stream_start 5])"
  by (simp add: example_defs control_defs)

lemma recorded_handle_reached:
  "dataCallback (Some running_handle) (Some [0x3F000000]) 1 =
     Inr (1, Some (running_handle\<lparr>recordedAudio := [0, 0, 0, 63]\<rparr>),
          [User_callback 1 [0x3F000000] 1 44100 1])"
  "stopCapture (running_handle\<lparr>recordedAudio := [0, 0, 0, 63]\<rparr>) 0 =
     (True, recorded_handle, [Cubeb_stream_stop 5])"
  by (simp_all add: example_defs control_defs dataCallback_def in_long_def onAudioData_def
      bytes_of_samples_def bytes_of_float32_def)

text \<open>
  C5, as stated, fails: on the handle a session left behind, with 44100 Hz, one channel
  and four recorded bytes, a start whose stream is created and then refused by
  \<open>cubeb_stream_start\<close> returns false with the sample rate and channel count
  overwritten and the recording gone.
\<close>

theorem start_failure_changes_state:
  "startCapture recorded_handle (- 1) start_fails_env =
     Inr (False, failed_start_handle,
          [Cubeb_stream_init (Some 3) (Some 11) requested_params 4096,
           Cubeb_stream_get_latency 6, Cubeb_stream_start 6, Cubeb_stream_destroy 6])
   \<and> getSampleRate recorded_handle = 44100 \<and> getSampleRate failed_start_handle = 48000
   \<and> getChannelCount recorded_handle = 1 \<and> getChannelCount failed_start_handle = 2
   \<and> recordedAudio recorded_handle = [0, 0, 0, 63] \<and> recordedAudio failed_start_handle = []"
  by (simp add: example_defs control_defs getSampleRate_def getChannelCount_def)

subsection \<open>The stored rate and channel count\<close>

lemma open_stream_rates:
  assumes "open_stream s es0 si r = (ok, s', es)" and "\<not> list_ex is_stream_init es0"
    and "\<not> (list_ex is_stream_init es \<and> si_r si = CUBEB_OK)"
  shows "sampleRate s' = sampleRate s \<and> channelCount s' = channelCount s"
  using assms by (auto simp: open_stream_def Let_def split: if_splits)

lemma do_call_rates:
  assumes "do_call s c = Inr (r, s1, es)" and "\<not> stream_created s c"
  shows "sampleRate s1 = sampleRate s \<and> channelCount s1 = channelCount s"
proof (cases c)
  case (StopCapture stop_r)
  with assms(1) show ?thesis
    by (auto simp: stopCapture_def Let_def split: if_splits)
next
  case (StartCapture i env)
  with assms have st: "startCapture s i env = Inr (r, s1, es)"
    and n: "\<not> (list_ex is_stream_init es \<and> si_r (se_stream_init env) = CUBEB_OK)"
    by (simp_all add: stream_created_def)
  show ?thesis
  proof (cases "initialized s \<and> \<not> capturing s")
    case False
    with st show ?thesis by (auto simp: startCapture_def split: if_splits)
  next
    case True
    show ?thesis
    proof (cases "0 \<le> i")
      case False
      with True st have "open_stream s [] (se_stream_init env) (se_stream_start env) = (r, s1, es)"
        by (simp add: startCapture_def)
      from open_stream_rates [OF this _ n] show ?thesis by simp
    next
      case i: True
      with True st obtain ok s0 es0 where
        d: "setInputDevice s i (se_enumerate env) = Inr (ok, s0, es0)"
        by (auto simp: startCapture_def split: sum.splits)
      note e = setInputDevice_effects [OF d]
      show ?thesis
      proof (cases ok)
        case False
        with True i st d e show ?thesis by (simp add: startCapture_def)
      next
        case ok: True
        with True i st d have
          "open_stream s0 es0 (se_stream_init env) (se_stream_start env) = (r, s1, es)"
          by (simp add: startCapture_def)
        from open_stream_rates [OF this _ n] e show ?thesis by simp
      qed
    qed
  qed
qed

lemma run_calls_rates:
  assumes "no_stream_created s cs" and "run_calls s cs = Inr (rs, s')"
  shows "sampleRate s' = sampleRate s \<and> channelCount s' = channelCount s"
  using assms
proof (induction cs arbitrary: s rs)
  case Nil
  then show ?case by simp
next
  case (Cons c cs)
  from Cons.prems(2) obtain r s1 es rs1 where
    d: "do_call s c = Inr (r, s1, es)" and rr: "run_calls s1 cs = Inr (rs1, s')"
    by (auto split: sum.splits prod.splits)
  from Cons.prems(1) d have n: "\<not> stream_created s c" and m: "no_stream_created s1 cs"
    by simp_all
  from do_call_rates [OF d n] Cons.IH [OF m rr] show ?case by simp
qed

lemma ctor_rates:
  "sampleRate (fst (AudioCapture_ctor cb ini enum)) = 0"
  "channelCount (fst (AudioCapture_ctor cb ini enum)) = 0"
  by (simp_all add: AudioCapture_ctor_def initializeCubeb_def Let_def split: list.splits)

text \<open>
  C9, as the code has it. A freshly constructed handle reports sample rate 0 and channel
  count 0, whatever the backend answered during construction, and so does the handle after
  any run of start and stop calls in which no call had its stream created. After a start
  that succeeded the two getters give what that start read from the parameter struct, and
  they give the same after \<open>stopCapture\<close>.
\<close>

theorem rate_and_channels_kept:
  assumes "no_stream_created (fst (AudioCapture_ctor cb ini enum)) cs"
    and "run_calls (fst (AudioCapture_ctor cb ini enum)) cs = Inr (rs, s0)"
    and "startCapture s i env = Inr (True, s1, es1)"
    and "stopCapture s1 stop_r = (ok, s2, es2)"
  shows "getSampleRate (fst (AudioCapture_ctor cb ini enum)) = 0
    \<and> getChannelCount (fst (AudioCapture_ctor cb ini enum)) = 0
    \<and> getSampleRate s0 = 0 \<and> getChannelCount s0 = 0
    \<and> getSampleRate s1 = sint (rate (si_params (se_stream_init env)))
    \<and> getChannelCount s1 = sint (channels (si_params (se_stream_init env)))
    \<and> getSampleRate s2 = getSampleRate s1 \<and> getChannelCount s2 = getChannelCount s1"
proof -
  from assms(4) have "sampleRate s2 = sampleRate s1" "channelCount s2 = channelCount s1"
    by (auto simp: stopCapture_def Let_def split: if_splits)
  with run_calls_rates [OF assms(1,2)] startCapture_started(1,2) [OF assms(3)]
  show ?thesis
    by (simp add: getSampleRate_def getChannelCount_def ctor_rates)
qed

theorem rate_and_channels_kept_witness:
  "\<exists>rs s0 s1 es1 s2 es2.
     no_stream_created (fst (AudioCapture_ctor (Some 1) (0, 3) two_devices))
       [StopCapture 0, StartCapture 1 create_fails_env, StartCapture 5 ok_env]
     \<and> run_calls (fst (AudioCapture_ctor (Some 1) (0, 3) two_devices))
       [StopCapture 0, StartCapture 1 create_fails_env, StartCapture 5 ok_env] = Inr (rs, s0)
     \<and> startCapture s0 (- 1) ok_env = Inr (True, s1, es1)
     \<and> stopCapture s1 0 = (True, s2, es2)
     \<and> getSampleRate s0 = 0 \<and> getChannelCount s0 = 0
     \<and> getSampleRate s2 = 44100 \<and> getChannelCount s2 = 1"
proof -
  let ?cs = "[StopCapture 0, StartCapture 1 create_fails_env, StartCapture 5 ok_env]"
  have n: "no_stream_created (fst (AudioCapture_ctor (Some 1) (0, 3) two_devices)) ?cs"
    by (simp add: stream_created_def example_defs control_defs)
  obtain rs s0 where r: "run_calls (fst (AudioCapture_ctor (Some 1) (0, 3) two_devices)) ?cs
      = Inr (rs, s0)"
    and s0: "initialized s0" "\<not> capturing s0" "inputDeviceId s0 \<noteq> None"
    by (simp add: example_defs control_defs)
  then obtain s1 es1 where a: "startCapture s0 (- 1) ok_env = Inr (True, s1, es1)"
    by (auto simp: control_defs ok_env_def granted_params_def CUBEB_OK_def)
  have p: "sint (rate (si_params (se_stream_init ok_env))) = 44100"
    "sint (channels (si_params (se_stream_init ok_env))) = 1"
    by (simp_all add: example_defs)
  obtain s2 es2 where b: "stopCapture s1 0 = (True, s2, es2)"
    by (cases "stopCapture s1 0") (auto dest: stopCapture_eq)
  from rate_and_channels_kept [OF n r a b] n r a b p
  show ?thesis by auto
qed

text \<open>
  C9, as stated, fails: on a freshly constructed handle, a start whose stream is created
  and then refused by \<open>cubeb_stream_start\<close> returns false, and from then on the getters
  give 48000 and 2 although no start has succeeded.
\<close>

theorem failed_start_stores_rate:
  "startCapture (fst (AudioCapture_ctor (Some 1) (0, 3) two_devices)) (- 1) start_fails_env =
     Inr (False, rejected_start_handle,
          [Cubeb_stream_init (Some 3) (Some 11) requested_params 4096,
           Cubeb_stream_get_latency 6, Cubeb_stream_start 6, Cubeb_stream_destroy 6])
   \<and> getSampleRate rejected_start_handle = 48000
   \<and> getChannelCount rejected_start_handle = 2"
  by (simp add: example_defs control_defs rejected_start_handle_def getSampleRate_def
      getChannelCount_def)

subsection \<open>Deliveries\<close>

lemma to_int32_id: "0 \<le> x \<Longrightarrow> x < 2 ^ 31 \<Longrightarrow> to_int32 x = x"
  by (simp add: to_int32_def signed_take_bit_int_eq_self)

lemma length_bytes_of_samples: "length (bytes_of_samples xs) = 4 * length xs"
  by (induction xs) (simp_all add: bytes_of_samples_def bytes_of_float32_def)

lemma dataCallback_delivery:
  assumes "0 \<le> F" "0 \<le> channelCount s" "F * channelCount s < 2 ^ 31"
    and "int (length b) = F * channelCount s"
  shows "dataCallback (Some s) (Some b) F =
    Inr (F, Some (s\<lparr>recordedAudio := recordedAudio s @ bytes_of_samples b\<rparr>),
         onAudioData (s\<lparr>recordedAudio := recordedAudio s @ bytes_of_samples b\<rparr>) b (to_int32 F))"
proof -
  have p: "0 \<le> F * channelCount s"
    using assms(1,2) by simp
  then have "in_long (F * channelCount s)"
    using assms(3) by (simp add: in_long_def)
  moreover have "to_int32 (F * channelCount s) = int (length b)"
    using p assms(3,4) by (simp add: to_int32_id)
  ultimately show ?thesis
    by (simp add: dataCallback_def Let_def)
qed

lemma deliver_run:
  assumes "0 \<le> F" "0 \<le> channelCount s" "F * channelCount s < 2 ^ 31"
    and "\<forall>b\<in>set bufs. int (length b) = F * channelCount s"
  shows "\<exists>s2 es2. deliver s bufs F = Inr (replicate (length bufs) F, s2, es2)
    \<and> recordedAudio s2 = recordedAudio s @ concat (map bytes_of_samples bufs)"
  using assms
proof (induction bufs arbitrary: s)
  case Nil
  then show ?case by simp
next
  case (Cons b bufs)
  let ?s1 = "s\<lparr>recordedAudio := recordedAudio s @ bytes_of_samples b\<rparr>"
  from Cons.prems have d: "dataCallback (Some s) (Some b) F =
      Inr (F, Some ?s1, onAudioData ?s1 b (to_int32 F))"
    by (intro dataCallback_delivery) simp_all
  from Cons.prems have "\<exists>s2 es2. deliver ?s1 bufs F = Inr (replicate (length bufs) F, s2, es2)
      \<and> recordedAudio s2 = recordedAudio ?s1 @ concat (map bytes_of_samples bufs)"
    by (intro Cons.IH) simp_all
  then obtain s2 es2 where
    "deliver ?s1 bufs F = Inr (replicate (length bufs) F, s2, es2)"
    "recordedAudio s2 = recordedAudio ?s1 @ concat (map bytes_of_samples bufs)"
    by blast
  with d show ?case by simp
qed

lemma length_concat_bytes:
  "\<forall>b\<in>set bufs. int (length b) = n \<Longrightarrow>
     int (length (concat (map bytes_of_samples bufs))) = int (length bufs) * n * 4"
  by (induction bufs) (simp_all add: length_bytes_of_samples algebra_simps)

text \<open>
  C2. A session: a start that succeeded, then deliveries of \<open>F\<close> frames each, every
  buffer non-null and holding \<open>F \<times> C\<close> samples, \<open>C\<close> being the channel count of the
  session; \<open>F \<times> C\<close> is within the range of \<open>int\<close>, the type the sample count is
  computed in. Every delivery returns \<open>F\<close>, the recording is the bytes of the delivered
  buffers in order, four for each sample, and so holds \<open>N \<times> F \<times> C \<times> 4\<close> bytes after
  \<open>N\<close> deliveries.
\<close>

theorem session_accumulates:
  assumes "startCapture s i env = Inr (True, s1, es1)"
    and "C = getChannelCount s1" and "0 \<le> F" and "0 \<le> C" and "F * C < 2 ^ 31"
    and "\<forall>b\<in>set bufs. int (length b) = F * C"
  shows "\<exists>s2 es2. deliver s1 bufs F = Inr (replicate (length bufs) F, s2, es2)
    \<and> recordedAudio s2 = concat (map bytes_of_samples bufs)
    \<and> int (length (recordedAudio s2)) = int (length bufs) * F * C * 4"
proof -
  have e: "recordedAudio s1 = []"
    using startCapture_started(3) [OF assms(1)] .
  have c: "channelCount s1 = C"
    using assms(2) by (simp add: getChannelCount_def)
  from assms(3-6) c obtain s2 es2 where
    d: "deliver s1 bufs F = Inr (replicate (length bufs) F, s2, es2)"
    and r: "recordedAudio s2 = recordedAudio s1 @ concat (map bytes_of_samples bufs)"
    using deliver_run [of F s1 bufs] by auto
  from r e length_concat_bytes [OF assms(6)] have
    "int (length (recordedAudio s2)) = int (length bufs) * F * C * 4"
    by (simp add: algebra_simps)
  with d r e show ?thesis by simp
qed

theorem session_accumulates_witness:
  "\<exists>s1 es1 s2 es2. startCapture ready_handle (- 1) ok_env = Inr (True, s1, es1)
     \<and> getChannelCount s1 = 1
     \<and> (\<forall>b\<in>set [[0x3F000000, 0xBF000000], [0, 0x3F800000], [0, 0]]. int (length b) = 2 * 1)
     \<and> deliver s1 [[0x3F000000, 0xBF000000], [0, 0x3F800000], [0, 0]] 2 = Inr ([2, 2, 2], s2, es2)
     \<and> int (length (recordedAudio s2)) = 3 * 2 * 1 * 4"
proof -
  obtain s1 es1 where a: "startCapture ready_handle (- 1) ok_env = Inr (True, s1, es1)"
    and c: "1 = getChannelCount s1"
    by (simp add: example_defs control_defs getChannelCount_def)
  have b: "\<forall>b\<in>set [[0x3F000000, 0xBF000000], [0, 0x3F800000], [0, 0 :: float32]].
      int (length b) = 2 * 1"
    by simp
  from session_accumulates [OF a c _ _ _ b] a c b show ?thesis
    by (auto simp: numeral_3_eq_3)
qed

subsection \<open>The conversion to PCM\<close>

lemma round_half_even_bounds: "\<lfloor>v\<rfloor> \<le> round_half_even v \<and> round_half_even v \<le> \<lceil>v\<rceil>"
proof -
  have "\<lfloor>v\<rfloor> \<le> \<lceil>v\<rceil>" by (simp add: floor_le_ceiling)
  moreover have "\<lfloor>v\<rfloor> + 1 \<le> \<lceil>v\<rceil>" if "0 < v - of_int \<lfloor>v\<rfloor>"
    using that by (simp add: add1_zle_eq less_ceiling_iff)
  ultimately show ?thesis
    by (auto simp: round_half_even_def Let_def)
qed

lemma round_half_even_abs_le:
  assumes "\<bar>v\<bar> \<le> of_int M"
  shows "\<bar>round_half_even v\<bar> \<le> M"
proof -
  from assms have "- M \<le> \<lfloor>v\<rfloor>" "\<lceil>v\<rceil> \<le> M"
    by (simp_all add: le_floor_iff ceiling_le_iff abs_le_iff)
  with round_half_even_bounds [of v] show ?thesis by linarith
qed

lemma ilog2_bounds:
  assumes "0 < x"
  shows "pow2 (ilog2 x) \<le> x \<and> x < pow2 (ilog2 x + 1)"
proof (cases "1 \<le> x")
  case True
  define b where "b = bitlen \<lfloor>x\<rfloor>"
  from True have p: "0 < \<lfloor>x\<rfloor>" by simp
  then have b1: "1 \<le> b"
    by (simp add: b_def bitlen_ge_iff_power)
  from bitlen_bounds [OF p] have "2 ^ nat (b - 1) \<le> \<lfloor>x\<rfloor>" and u: "\<lfloor>x\<rfloor> < 2 ^ nat b"
    by (simp_all add: b_def)
  then have "of_int (2 ^ nat (b - 1)) \<le> x"
    by (simp only: le_floor_iff)
  then have l: "2 ^ nat (b - 1) \<le> x"
    by simp
  from u have "x < of_int (2 ^ nat b)"
    by (simp only: floor_less_iff)
  then have "x < 2 ^ nat b" by simp
  with True b1 l show ?thesis
    by (simp add: ilog2_def pow2_def b_def [symmetric])
next
  case False
  define n where "n = \<lceil>1 / x\<rceil> - 1"
  define b where "b = bitlen n"
  from False assms have y: "1 < 1 / x" by simp
  then have p: "0 < n" by (simp add: n_def)
  then have b1: "1 \<le> b"
    by (simp add: b_def bitlen_ge_iff_power)
  from bitlen_bounds [OF p] have "2 ^ nat (b - 1) < \<lceil>1 / x\<rceil>" "\<lceil>1 / x\<rceil> \<le> 2 ^ nat b"
    by (simp_all add: b_def n_def)
  then have "of_int (2 ^ nat (b - 1)) < 1 / x" "1 / x \<le> of_int (2 ^ nat b)"
    by (simp_all only: less_ceiling_iff ceiling_le_iff)
  then have "2 ^ nat (b - 1) < 1 / x" "1 / x \<le> 2 ^ nat b"
    by simp_all
  with assms have A: "x < 1 / 2 ^ nat (b - 1)" and B: "1 / 2 ^ nat b \<le> x"
    by (simp_all add: field_simps)
  from False have i: "ilog2 x = - b"
    by (simp add: ilog2_def n_def b_def)
  from b1 have "pow2 (- b) = 1 / 2 ^ nat b"
    by (simp add: pow2_def)
  moreover from b1 have "pow2 (- b + 1) = 1 / 2 ^ nat (b - 1)"
    by (cases "b = 1") (simp_all add: pow2_def)
  ultimately show ?thesis
    using A B by (simp add: i)
qed

lemma ilog2_le_14:
  assumes "0 < x" "x \<le> 32767"
  shows "ilog2 x \<le> 14"
proof (cases "1 \<le> x")
  case True
  then have "0 < \<lfloor>x\<rfloor>" by simp
  moreover from assms have "\<lfloor>x\<rfloor> < 2 ^ 15" by (simp add: floor_less_iff)
  ultimately have "bitlen \<lfloor>x\<rfloor> \<le> 15"
    by (simp add: bitlen_le_iff_power)
  with True show ?thesis by (simp add: ilog2_def)
next
  case False
  then show ?thesis
    using bitlen_nonneg [of "\<lceil>1 / x\<rceil> - 1"] by (simp add: ilog2_def)
qed

lemma pow2_neg: "k \<le> 0 \<Longrightarrow> pow2 k = 1 / 2 ^ nat (- k)"
  by (auto simp: pow2_def)

lemma f32_nearest_abs_le:
  assumes "\<bar>x\<bar> \<le> 32767"
  shows "\<bar>f32_nearest x\<bar> \<le> 32767"
proof (cases "x = 0")
  case True
  then show ?thesis by (simp add: f32_nearest_def)
next
  case False
  define e where "e = max (ilog2 \<bar>x\<bar>) (- 126)"
  define k where "k = nat (23 - e)"
  from False assms have "ilog2 \<bar>x\<bar> \<le> 14"
    by (intro ilog2_le_14) simp_all
  then have "e - 23 \<le> 0" by (simp add: e_def)
  then have q: "pow2 (e - 23) = 1 / 2 ^ k"
    by (simp add: pow2_neg k_def)
  have "\<bar>x * 2 ^ k\<bar> \<le> 32767 * 2 ^ k"
    using assms by (simp add: abs_mult)
  also have "\<dots> = of_int (32767 * 2 ^ k)" by simp
  finally have h: "\<bar>round_half_even (x * 2 ^ k)\<bar> \<le> 32767 * 2 ^ k"
    by (rule round_half_even_abs_le)
  from h have "(of_int \<bar>round_half_even (x * 2 ^ k)\<bar> :: real) \<le> of_int (32767 * 2 ^ k)"
    by (simp only: of_int_le_iff)
  then have "\<bar>real_of_int (round_half_even (x * 2 ^ k))\<bar> \<le> 32767 * 2 ^ k"
    by simp
  then have "\<bar>real_of_int (round_half_even (x * 2 ^ k))\<bar> / 2 ^ k \<le> 32767"
    by (simp add: field_simps)
  with False q show ?thesis
    by (simp add: f32_nearest_def Let_def e_def [symmetric] abs_mult)
qed

lemma round_half_even_error: "\<bar>of_int (round_half_even v) - v\<bar> \<le> 1 / 2"
proof -
  have "of_int \<lfloor>v\<rfloor> \<le> v" "v < of_int \<lfloor>v\<rfloor> + 1"
    by linarith+
  then show ?thesis
    by (auto simp: round_half_even_def Let_def abs_le_iff)
qed

lemma f32_nearest_error:
  assumes "\<bar>x\<bar> \<le> 32767"
  shows "\<bar>f32_nearest x - x\<bar> \<le> 1 / 1024"
proof (cases "x = 0")
  case True
  then show ?thesis by (simp add: f32_nearest_def)
next
  case False
  define e where "e = max (ilog2 \<bar>x\<bar>) (- 126)"
  define k where "k = nat (23 - e)"
  from False assms have "ilog2 \<bar>x\<bar> \<le> 14"
    by (intro ilog2_le_14) simp_all
  then have le: "e - 23 \<le> 0" and k9: "9 \<le> k" by (simp_all add: e_def k_def)
  then have q: "pow2 (e - 23) = 1 / 2 ^ k"
    by (simp add: pow2_neg k_def)
  have "(2 :: real) ^ 9 \<le> 2 ^ k"
    using k9 by (intro power_increasing) simp_all
  then have p: "(512 :: real) \<le> 2 ^ k" by simp
  have "\<bar>real_of_int (round_half_even (x * 2 ^ k)) - x * 2 ^ k\<bar> \<le> 1 / 2"
    by (rule round_half_even_error)
  then have "\<bar>real_of_int (round_half_even (x * 2 ^ k)) / 2 ^ k - x\<bar> * 2 ^ k \<le> 1 / 2"
    by (simp add: abs_mult [symmetric] field_simps del: abs_mult)
  then have "\<bar>real_of_int (round_half_even (x * 2 ^ k)) / 2 ^ k - x\<bar> \<le> 1 / 2 / 2 ^ k"
    by (simp add: field_simps)
  also have "\<dots> \<le> 1 / 1024"
    using p by (simp add: field_simps)
  finally show ?thesis
    using False q by (simp add: f32_nearest_def Let_def e_def [symmetric])
qed

lemma truncate_abs_le:
  assumes "\<bar>r\<bar> \<le> 32767"
  shows "- 32767 \<le> truncate_toward_zero r \<and> truncate_toward_zero r \<le> 32767"
  using assms by (auto simp: truncate_toward_zero_def le_floor_iff floor_le_iff ceiling_le_iff le_ceiling_iff abs_le_iff)

lemma clamp_code:
  "std_max (Finite (- 1)) (std_min (Finite 1) x) = Finite (clamp_unit x)"
  by (cases x) (auto simp: std_max_def std_min_def clamp_unit_def)

lemma clamp_unit_abs_le: "\<bar>clamp_unit x\<bar> \<le> 1"
  by (cases x) (auto simp: clamp_unit_def)

lemma pcm_of_float_spec:
  "pcm_of_float (f32_of_bits w) = Inr (word_of_int (spec_pcm_sample w))"
  "- 32767 \<le> spec_pcm_sample w" "spec_pcm_sample w \<le> 32767"
proof -
  let ?c = "clamp_unit (f32_of_bits w)"
  have "\<bar>?c * 32767\<bar> \<le> 32767"
    using clamp_unit_abs_le [of "f32_of_bits w"] by (simp add: abs_mult)
  then have n: "\<bar>f32_nearest (?c * 32767)\<bar> \<le> 32767"
    by (rule f32_nearest_abs_le)
  from truncate_abs_le [OF n] show b: "- 32767 \<le> spec_pcm_sample w" "spec_pcm_sample w \<le> 32767"
    by (simp_all add: spec_pcm_sample_def scale_32767_def)
  from n have "f32_round (?c * 32767) = Finite (f32_nearest (?c * 32767))"
    by (simp add: f32_round_def Let_def)
  moreover have "truncate_toward_zero (f32_nearest (?c * 32767)) = spec_pcm_sample w"
    by (simp add: spec_pcm_sample_def scale_32767_def)
  ultimately show "pcm_of_float (f32_of_bits w) = Inr (word_of_int (spec_pcm_sample w))"
    using b by (simp add: pcm_of_float_def clamp_code f32_to_int16_def)
qed

lemma float32_of_bytes_of_float32:
  "float32_of_bytes (ucast w) (ucast (drop_bit 8 w)) (ucast (drop_bit 16 w))
     (ucast (drop_bit 24 w)) = w"
proof (rule bit_word_eqI)
  fix n
  assume "n < LENGTH(32)"
  then show "bit (float32_of_bytes (ucast w) (ucast (drop_bit 8 w)) (ucast (drop_bit 16 w))
      (ucast (drop_bit 24 w))) n \<longleftrightarrow> bit w n"
    by (cases "n < 8"; cases "n < 16"; cases "n < 24")
      (auto simp: float32_of_bytes_def bit_simps)
qed

lemma stored_samples_bytes: "stored_samples (bytes_of_samples ws) = ws"
  by (induction ws)
    (simp_all add: bytes_of_samples_def bytes_of_float32_def float32_of_bytes_of_float32)

lemma length_stored_samples: "length (stored_samples bytes) = length bytes div 4"
  by (induction bytes rule: stored_samples.induct) simp_all

lemma floatData_nth:
  "n < length bytes div 4 \<Longrightarrow> floatData bytes (int n) = Some (stored_samples bytes ! n)"
proof (induction bytes arbitrary: n rule: stored_samples.induct)
  case (1 b0 b1 b2 b3 bs)
  show ?case
  proof (cases n)
    case 0
    then show ?thesis by (simp add: floatData_def)
  next
    case (Suc j)
    with 1 have "floatData bs (int j) = Some (stored_samples bs ! j)"
      by simp
    moreover from Suc 1 have "4 * j + 4 \<le> length bs" by simp
    ultimately show ?thesis
      using Suc by (simp add: floatData_def nat_add_distrib add.commute split: if_splits)
  qed
qed simp_all

lemma convert_samples_map:
  assumes "0 \<le> i" and "n \<le> int (length bytes div 4)"
  shows "convert_samples bytes i n pcm =
    Inr (pcm @ map (\<lambda>w. word_of_int (spec_pcm_sample w))
           (drop (nat i) (take (nat n) (stored_samples bytes))))"
  using assms
proof (induction bytes i n pcm rule: convert_samples.induct)
  case (1 bytes i numSamples pcmData)
  let ?xs = "take (nat numSamples) (stored_samples bytes)"
  show ?case
  proof (cases "i < numSamples")
    case False
    then show ?thesis by (subst convert_samples.simps) simp
  next
    case True
    with 1 have lt: "nat i < length bytes div 4" by simp
    with 1 have fd: "floatData bytes i = Some (stored_samples bytes ! nat i)"
      using floatData_nth [of "nat i" bytes] by simp
    from True 1 lt have len: "nat i < length ?xs"
      by (simp add: length_stored_samples)
    then have d: "drop (nat i) ?xs = stored_samples bytes ! nat i # drop (nat (i + 1)) ?xs"
      using 1 by (simp add: Cons_nth_drop_Suc [symmetric] nat_add_distrib)
    have "convert_samples bytes (i + 1) numSamples
            (pcmData @ [word_of_int (spec_pcm_sample (stored_samples bytes ! nat i))]) =
          Inr ((pcmData @ [word_of_int (spec_pcm_sample (stored_samples bytes ! nat i))]) @
                 map (\<lambda>w. word_of_int (spec_pcm_sample w)) (drop (nat (i + 1)) ?xs))"
      using True fd 1 by (intro "1.IH") (simp_all add: pcm_of_float_spec)
    with True fd d show ?thesis
      by (subst convert_samples.simps) (simp add: pcm_of_float_spec)
  qed
qed

lemma sint_spec_pcm_sample:
  "sint (word_of_int (spec_pcm_sample w) :: 16 word) = spec_pcm_sample w"
  using pcm_of_float_spec(2,3) [of w]
  by (simp add: sint_sbintrunc' signed_take_bit_int_eq_self)

text \<open>
  C3. When \<open>saveRecordedAudio\<close> reaches the encoder (the recording is not empty, its
  sample count fits an \<open>int\<close>, the channel count is positive and the file was opened),
  the samples it hands over are, in order, the stored samples, each clamped to
  \<open>[-1, 1]\<close>, scaled by 32767 and cut off towards zero, as 16-bit signed values; the
  result depends on the sample alone, and the scaled value is the product with 32767
  rounded to single precision, within \<open>1/1024\<close> of the exact product. They are written
  in one call as \<open>samples div channelCount\<close> frames, to a file declared as PCM with
  \<open>channelCount\<close> channels and 16 bits per sample.
\<close>

theorem exported_pcm:
  assumes "recordedAudio s \<noteq> []" and "length (recordedAudio s) div 4 < 2 ^ 31"
    and "0 < channelCount s"
  shows "saveRecordedAudio s True framesWritten =
      Inr (framesWritten \<noteq> 0,
        [Drwav_init_file_write (wav_filename (outputFile s))
           \<lparr>wav_container = drwav_container_riff, wav_format = DR_WAVE_FORMAT_PCM,
            wav_channels = word_of_int (channelCount s),
            wav_sampleRate = word_of_int (sampleRate s), wav_bitsPerSample = 16\<rparr>,
         Drwav_write_pcm_frames
           (length (stored_samples (recordedAudio s)) div nat (channelCount s))
           (map (\<lambda>w. word_of_int (spec_pcm_sample w)) (stored_samples (recordedAudio s))),
         Drwav_uninit])
    \<and> sint (word_of_int (spec_pcm_sample w) :: 16 word) =
        truncate_toward_zero (scale_32767 (clamp_unit (f32_of_bits w)))
    \<and> \<bar>clamp_unit (f32_of_bits w)\<bar> \<le> 1
    \<and> \<bar>scale_32767 (clamp_unit (f32_of_bits w)) - clamp_unit (f32_of_bits w) * 32767\<bar>
        \<le> 1 / 1024"
proof -
  let ?n = "int (length (recordedAudio s) div 4)"
  have n: "to_int32 ?n = ?n"
    using assms(2) by (simp add: to_int32_id)
  have c: "convert_samples (recordedAudio s) 0 ?n [] =
      Inr (map (\<lambda>w. word_of_int (spec_pcm_sample w)) (stored_samples (recordedAudio s)))"
    using convert_samples_map [of 0 ?n "recordedAudio s" "[]"]
    by (simp add: length_stored_samples)
  have z: "to_size_t (channelCount s) = nat (channelCount s)"
    using assms(3) by (simp add: to_size_t_def)
  from assms(1,3) n c z have "saveRecordedAudio s True framesWritten =
      Inr (framesWritten \<noteq> 0,
        [Drwav_init_file_write (wav_filename (outputFile s))
           \<lparr>wav_container = drwav_container_riff, wav_format = DR_WAVE_FORMAT_PCM,
            wav_channels = word_of_int (channelCount s),
            wav_sampleRate = word_of_int (sampleRate s), wav_bitsPerSample = 16\<rparr>,
         Drwav_write_pcm_frames
           (length (stored_samples (recordedAudio s)) div nat (channelCount s))
           (map (\<lambda>w. word_of_int (spec_pcm_sample w)) (stored_samples (recordedAudio s))),
         Drwav_uninit])"
    by (simp add: saveRecordedAudio_def Let_def)
  moreover have "\<bar>clamp_unit (f32_of_bits w) * 32767\<bar> \<le> 32767"
    using clamp_unit_abs_le [of "f32_of_bits w"] by (simp add: abs_mult)
  then have "\<bar>scale_32767 (clamp_unit (f32_of_bits w)) - clamp_unit (f32_of_bits w) * 32767\<bar>
      \<le> 1 / 1024"
    unfolding scale_32767_def by (rule f32_nearest_error)
  moreover have "sint (word_of_int (spec_pcm_sample w) :: 16 word) =
      truncate_toward_zero (scale_32767 (clamp_unit (f32_of_bits w)))"
    by (simp add: sint_spec_pcm_sample) (simp add: spec_pcm_sample_def)
  ultimately show ?thesis
    using clamp_unit_abs_le [of "f32_of_bits w"] by simp
qed

lemmas float_defs =
  spec_pcm_sample_def scale_32767_def clamp_unit_def f32_of_bits_def f32_nearest_def ilog2_def
  pow2_def round_half_even_def truncate_toward_zero_def compute_bitlen bit_iff_odd
  drop_bit_eq_div take_bit_eq_mod Let_def

lemma example_samples:
  "spec_pcm_sample 0x40000000 = 32767" "spec_pcm_sample 0xBF000000 = - 16383"
  "spec_pcm_sample 0x3F000000 = 16383" "spec_pcm_sample 0x7FC00000 = 32767"
  "spec_pcm_sample 0x3E800000 = 8191"
  by (simp_all add: float_defs)

theorem exported_pcm_witness:
  "recordedAudio stereo_recording \<noteq> [] \<and> length (recordedAudio stereo_recording) div 4 < 2 ^ 31
   \<and> 0 < channelCount stereo_recording
   \<and> saveRecordedAudio stereo_recording True 2 =
      Inr (True,
        [Drwav_init_file_write ''captured-audio.wav''
           \<lparr>wav_container = drwav_container_riff, wav_format = DR_WAVE_FORMAT_PCM,
            wav_channels = 2, wav_sampleRate = 48000, wav_bitsPerSample = 16\<rparr>,
         Drwav_write_pcm_frames 2 [32767, - 16383, 16383, 32767, 8191],
         Drwav_uninit])"
proof -
  have r: "recordedAudio stereo_recording =
      bytes_of_samples [0x40000000, 0xBF000000, 0x3F000000, 0x7FC00000, 0x3E800000]"
    "channelCount stereo_recording = 2" "sampleRate stereo_recording = 48000"
    "outputFile stereo_recording = ''captured-audio.wav''"
    by (simp_all add: stereo_recording_def example_defs)
  have a: "recordedAudio stereo_recording \<noteq> []"
    and b: "length (recordedAudio stereo_recording) div 4 < 2 ^ 31"
    and c: "0 < channelCount stereo_recording"
    by (simp_all add: r length_bytes_of_samples)
      (simp add: bytes_of_samples_def bytes_of_float32_def)
  have f: "wav_filename ''captured-audio.wav'' = ''captured-audio.wav''"
    by (simp add: wav_filename_def)
  from exported_pcm [OF a b c, of 2] a b c show ?thesis
    by (simp add: r stored_samples_bytes example_samples f)
qed

end
